theory Spec2Isabelle
  imports Complex_Main
begin

section \<open>Common data model\<close>

text \<open>
  The calculators of the repository are Python functions over pandas frames of OHLCV
  candles and over order books. Numbers are modelled as exact reals: a theorem below
  speaks about the formula the code evaluates, not about the last bits of a binary
  float. Where the special values of floating-point arithmetic decide a claim (the RSI),
  they are modelled explicitly.

  A fetched frame is the list of its rows, oldest first.
\<close>

record candle =
  timestamp :: int
  "open" :: real
  high :: real
  low :: real
  close :: real
  volume :: real

text \<open>
  JSON-shaped values of the result dictionaries; a dictionary keeps its insertion order.
  A float is a real (\<open>PNum\<close>), an infinity or not-a-number.
\<close>

datatype pyval = PNone | PBool bool | PNum real | PPosInf | PNegInf | PNaN | PStr string
  | PList "pyval list" | PDict "(string \<times> pyval) list"

type_synonym payload = "(string \<times> pyval) list"

text \<open>
  Exceptions are values: the type of the exception and the text \<open>str(e)\<close>. The texts of
  exceptions raised inside the interpreter or pandas are the ones those libraries
  produce.
\<close>

datatype exc_type = IndexError | ZeroDivisionError | ValueError | TypeError

type_synonym py_exception = "exc_type \<times> string"

fun type_name :: "exc_type \<Rightarrow> string" where
  "type_name IndexError = ''IndexError''"
| "type_name ZeroDivisionError = ''ZeroDivisionError''"
| "type_name ValueError = ''ValueError''"
| "type_name TypeError = ''TypeError''"

definition digit_char :: "nat \<Rightarrow> char" where
  "digit_char d = ''0123456789'' ! d"

fun str_of_nat :: "nat \<Rightarrow> string" where
  "str_of_nat n = (if n < 10 then [digit_char n] else str_of_nat (n div 10) @ [digit_char (n mod 10)])"

definition str_of_int :: "int \<Rightarrow> string" where
  "str_of_int i = (if i < 0 then CHR ''-'' # str_of_nat (nat (- i)) else str_of_nat (nat i))"

text \<open>
  Python's \<open>round(x, n)\<close> rounds to the nearest multiple of \<open>10^-n\<close>, ties to the even
  neighbour.
\<close>

definition round_half_even :: "real \<Rightarrow> int" where
  "round_half_even x =
     (let f = \<lfloor>x\<rfloor>; d = x - of_int f
      in if d < 1/2 then f else if 1/2 < d then f + 1 else if even f then f else f + 1)"

definition py_round :: "real \<Rightarrow> nat \<Rightarrow> real" where
  "py_round x n = of_int (round_half_even (x * 10 ^ n)) / 10 ^ n"

text \<open>\<open>df[col].iloc[-k]\<close>: the k-th row from the end, IndexError when the frame is shorter.\<close>

definition iloc_neg :: "'a list \<Rightarrow> nat \<Rightarrow> py_exception + 'a" where
  "iloc_neg xs k =
     (if 0 < k \<and> k \<le> length xs then Inr (xs ! (length xs - k))
      else Inl (IndexError, ''single positional indexer is out-of-bounds''))"

text \<open>
  The \<open>except Exception\<close> block shared by the tools of crypto\_advanced\_indicators.py,
  crypto\_futures\_data.py and crypto\_market\_microstructure.py.
\<close>

definition failure_payload :: "py_exception \<Rightarrow> payload \<Rightarrow> payload" where
  "failure_payload e echo =
     [(''success'', PBool False), (''error'', PStr (snd e)),
      (''error_type'', PStr (type_name (fst e)))] @ echo"

section \<open>Pivot points (crypto\_advanced\_indicators.py, calculate\_pivot\_points)\<close>

record pivot_levels =
  pivot :: real
  r1 :: real
  r2 :: real
  r3 :: real
  s1 :: real
  s2 :: real
  s3 :: real

text \<open>The assignments between \<open># Pivot Point\<close> and \<open>current_price\<close>.\<close>

definition pivot_formulas :: "real \<Rightarrow> real \<Rightarrow> real \<Rightarrow> pivot_levels" where
  "pivot_formulas h l c =
     (let p = (h + l + c) / 3
      in \<lparr> pivot = p,
           r1 = 2 * p - l, r2 = p + (h - l), r3 = h + 2 * (p - l),
           s1 = 2 * p - h, s2 = p - (h - l), s3 = l - 2 * (h - p) \<rparr>)"

text \<open>
  \<open>min(levels.items(), key=...)\<close>: the first item of the dictionary, in insertion order,
  whose distance to the current price is minimal.
\<close>

fun min_by :: "('a \<Rightarrow> real) \<Rightarrow> 'a \<Rightarrow> 'a list \<Rightarrow> 'a" where
  "min_by key best [] = best"
| "min_by key best (x # xs) = min_by key (if key x < key best then x else best) xs"

definition pivot_success :: "string \<Rightarrow> string \<Rightarrow> real \<Rightarrow> pivot_levels \<Rightarrow> payload" where
  "pivot_success symbol timeframe current_price lv =
     (let levels = [(''R3'', r3 lv), (''R2'', r2 lv), (''R1'', r1 lv), (''PIVOT'', pivot lv),
                    (''S1'', s1 lv), (''S2'', s2 lv), (''S3'', s3 lv)];
          closest_level = min_by (\<lambda>x. \<bar>snd x - current_price\<bar>) (hd levels) (tl levels)
      in [(''success'', PBool True),
          (''symbol'', PStr symbol),
          (''timeframe'', PStr timeframe),
          (''current_price'', PNum current_price),
          (''pivot'', PNum (py_round (pivot lv) 2)),
          (''resistances'', PDict [(''R1'', PNum (py_round (r1 lv) 2)),
                                   (''R2'', PNum (py_round (r2 lv) 2)),
                                   (''R3'', PNum (py_round (r3 lv) 2))]),
          (''supports'', PDict [(''S1'', PNum (py_round (s1 lv) 2)),
                                (''S2'', PNum (py_round (s2 lv) 2)),
                                (''S3'', PNum (py_round (s3 lv) 2))]),
          (''closest_level'', PDict [(''level'', PStr (fst closest_level)),
               (''price'', PNum (py_round (snd closest_level) 2)),
               (''distance'', PNum (py_round (current_price - snd closest_level) 2))])])"

text \<open>
  The tool after validation and fetch: \<open>symbol\<close> and \<open>timeframe\<close> are the validated
  arguments, \<open>df\<close> the fetched frame. The levels come from the row before the last one.
\<close>

definition calculate_pivot_points :: "string \<Rightarrow> string \<Rightarrow> candle list \<Rightarrow> payload" where
  "calculate_pivot_points symbol timeframe df =
     (case iloc_neg df 2 of
        Inl e \<Rightarrow> failure_payload e [(''symbol'', PStr symbol)]
      | Inr prev \<Rightarrow>
          (case iloc_neg df 1 of
             Inl e \<Rightarrow> failure_payload e [(''symbol'', PStr symbol)]
           | Inr cur \<Rightarrow>
               pivot_success symbol timeframe (close cur)
                 (pivot_formulas (high prev) (low prev) (close prev))))"

text \<open>A one-bar frame holding the given High, Low and Close, for the literal examples.\<close>

definition bar :: "real \<Rightarrow> real \<Rightarrow> real \<Rightarrow> candle" where
  "bar h l c = \<lparr> timestamp = 0, open = c, high = h, low = l, close = c, volume = 1 \<rparr>"

section \<open>Funding rate (crypto\_futures\_data.py, get\_funding\_rate)\<close>

text \<open>
  The two module constants the classifier could read. They are passed as a record so that
  a theorem can say which of them the function consults; \<open>module_thresholds\<close> holds the
  values of the source.
\<close>

record funding_thresholds =
  FUNDING_NEUTRAL_THRESHOLD :: real
  FUNDING_EXTREME_THRESHOLD :: real

definition module_thresholds :: funding_thresholds where
  "module_thresholds = \<lparr> FUNDING_NEUTRAL_THRESHOLD = 5, FUNDING_EXTREME_THRESHOLD = 50 \<rparr>"

text \<open>\<open>_format_symbol\<close>: BTC becomes BTC/USDT:USDT.\<close>

definition format_symbol :: "string \<Rightarrow> string" where
  "format_symbol symbol =
     (if CHR '':'' \<in> set symbol then symbol
      else if CHR ''/'' \<in> set symbol then takeWhile (\<lambda>c. c \<noteq> CHR ''/'') symbol @ ''/USDT:USDT''
      else symbol @ ''/USDT:USDT'')"

text \<open>The \<open># Analysis\<close> chain of get\_funding\_rate: bias and interpretation.\<close>

definition funding_analysis :: "funding_thresholds \<Rightarrow> real \<Rightarrow> string \<times> string" where
  "funding_analysis th annual_rate =
     (if \<bar>annual_rate\<bar> < FUNDING_NEUTRAL_THRESHOLD th then
        (''NEUTRAL'', ''Neutral funding rate, balanced market'')
      else if annual_rate > FUNDING_NEUTRAL_THRESHOLD th then
        (''BULLISH_EXTREME'',
         ''Very positive funding rate - Longs paying Shorts - Possible correction'')
      else
        (''BEARISH_EXTREME'',
         ''Very negative funding rate - Shorts paying Longs - Possible bounce''))"

text \<open>
  The tool after validation and a successful fetch: \<open>rate\<close> is
  \<open>funding_rate['fundingRate']\<close>. The entries next\_funding\_time and time\_until\_funding
  (which read the clock) and raw\_data (the fetched dictionary itself) are left out of the
  modelled payload.
\<close>

definition get_funding_rate :: "funding_thresholds \<Rightarrow> string \<Rightarrow> string \<Rightarrow> real \<Rightarrow> payload" where
  "get_funding_rate th symbol exchange rate =
     (let formatted_symbol = format_symbol symbol;
          annual_rate = rate * 3 * 365 * 100;
          analysis = funding_analysis th annual_rate
      in [(''success'', PBool True),
          (''exchange'', PStr exchange),
          (''symbol'', PStr formatted_symbol),
          (''funding_rate'', PNum rate),
          (''funding_rate_percentage'', PNum (rate * 100)),
          (''annual_rate_percentage'', PNum (py_round annual_rate 2)),
          (''market_bias'', PStr (fst analysis)),
          (''interpretation'', PStr (snd analysis))])"

section \<open>Liquidation levels (crypto\_futures\_data.py, calculate\_liquidation\_levels)\<close>







section \<open>Order books (crypto\_market\_microstructure.py)\<close>

text \<open>
  An order-book side is the list of its levels \<open>[price, size]\<close>, best price first. Prices
  and sizes are Python floats: a division by zero raises ZeroDivisionError, and
  \<open>side[0][0]\<close> on an empty side raises IndexError.
\<close>

type_synonym level = "real \<times> real"

definition py_div :: "real \<Rightarrow> real \<Rightarrow> py_exception + real" where
  "py_div a b = (if b = 0 then Inl (ZeroDivisionError, ''float division by zero'') else Inr (a / b))"

definition best_price :: "level list \<Rightarrow> py_exception + real" where
  "best_price side =
     (case side of [] \<Rightarrow> Inl (IndexError, ''list index out of range'') | l # _ \<Rightarrow> Inr (fst l))"

definition SPOOFING_VOLUME_MULTIPLIER :: real where "SPOOFING_VOLUME_MULTIPLIER = 5"
definition SPOOFING_DISTANCE_PCT :: real where "SPOOFING_DISTANCE_PCT = 0.5"
definition SPOOFING_COUNT_THRESHOLD :: nat where "SPOOFING_COUNT_THRESHOLD = 3"

text \<open>\<open>statistics.mean\<close> on a non-empty list.\<close>

definition mean :: "real list \<Rightarrow> real" where
  "mean xs = sum_list xs / real (length xs)"

subsection \<open>detect\_spoofing\_patterns\<close>

definition suspicious_entry :: "nat \<Rightarrow> real \<Rightarrow> real \<Rightarrow> real \<Rightarrow> real \<Rightarrow> pyval" where
  "suspicious_entry i price vol distance_from_mid volume_ratio =
     PDict [(''level'', PNum (real i)),
            (''price'', PNum price),
            (''volume'', PNum (py_round vol 4)),
            (''distance_percentage'', PNum (py_round distance_from_mid 2)),
            (''volume_ratio'', PNum (py_round volume_ratio 2))]"

text \<open>
  The loop \<open>for i, bid in enumerate(bids)\<close>; \<open>acc\<close> is the list suspicious\_bids built so far.
\<close>

fun scan_bids ::
  "real \<Rightarrow> real \<Rightarrow> real \<Rightarrow> nat \<Rightarrow> level list \<Rightarrow> pyval list \<Rightarrow> py_exception + pyval list" where
  "scan_bids mid_price avg_bid_volume large_bid_threshold i [] acc = Inr acc"
| "scan_bids mid_price avg_bid_volume large_bid_threshold i ((price, vol) # bids) acc =
     (case py_div (mid_price - price) mid_price of
        Inl e \<Rightarrow> Inl e
      | Inr q \<Rightarrow>
          (let distance_from_mid = q * 100
           in if vol > large_bid_threshold \<and> distance_from_mid > SPOOFING_DISTANCE_PCT then
                (case py_div vol avg_bid_volume of
                   Inl e \<Rightarrow> Inl e
                 | Inr ratio \<Rightarrow>
                     scan_bids mid_price avg_bid_volume large_bid_threshold (Suc i) bids
                       (acc @ [suspicious_entry i price vol distance_from_mid ratio]))
              else scan_bids mid_price avg_bid_volume large_bid_threshold (Suc i) bids acc))"

text \<open>The loop \<open>for i, ask in enumerate(asks)\<close>.\<close>

fun scan_asks ::
  "real \<Rightarrow> real \<Rightarrow> real \<Rightarrow> nat \<Rightarrow> level list \<Rightarrow> pyval list \<Rightarrow> py_exception + pyval list" where
  "scan_asks mid_price avg_ask_volume large_ask_threshold i [] acc = Inr acc"
| "scan_asks mid_price avg_ask_volume large_ask_threshold i ((price, vol) # asks) acc =
     (case py_div (price - mid_price) mid_price of
        Inl e \<Rightarrow> Inl e
      | Inr q \<Rightarrow>
          (let distance_from_mid = q * 100
           in if vol > large_ask_threshold \<and> distance_from_mid > SPOOFING_DISTANCE_PCT then
                (case py_div vol avg_ask_volume of
                   Inl e \<Rightarrow> Inl e
                 | Inr ratio \<Rightarrow>
                     scan_asks mid_price avg_ask_volume large_ask_threshold (Suc i) asks
                       (acc @ [suspicious_entry i price vol distance_from_mid ratio]))
              else scan_asks mid_price avg_ask_volume large_ask_threshold (Suc i) asks acc))"

text \<open>
  The block \<open># Spoofing score\<close>, from the two counts \<open>len(suspicious_bids)\<close> and
  \<open>len(suspicious_asks)\<close>.
\<close>

definition spoofing_score_of :: "nat \<Rightarrow> nat \<Rightarrow> nat" where
  "spoofing_score_of n_bids n_asks =
     (let s0 = 0;
          s1 = (if n_bids > SPOOFING_COUNT_THRESHOLD then s0 + 25 else s0);
          s2 = (if n_asks > SPOOFING_COUNT_THRESHOLD then s1 + 25 else s1)
      in if n_bids > n_asks * 2 then s2 + 25
         else if n_asks > n_bids * 2 then s2 + 25
         else s2)"

definition risk_level_of :: "nat \<Rightarrow> string \<times> string" where
  "risk_level_of spoofing_score =
     (if spoofing_score > 50 then
        (''HIGH'', ''High spoofing risk - Suspicious large orders detected'')
      else if spoofing_score > 25 then
        (''MODERATE'', ''Moderate spoofing risk - Some suspicious orders'')
      else (''LOW'', ''Low spoofing risk - Orderbook appears legitimate''))"

text \<open>The body of the \<open>try\<close> block after validation and fetch; the timestamp is left out.\<close>

definition spoofing_body ::
  "string \<Rightarrow> string \<Rightarrow> real \<Rightarrow> level list \<Rightarrow> level list \<Rightarrow> py_exception + payload" where
  "spoofing_body symbol exchange large_order_threshold_btc bids asks =
     (case best_price bids of Inl e \<Rightarrow> Inl e | Inr best_bid \<Rightarrow>
      case best_price asks of Inl e \<Rightarrow> Inl e | Inr best_ask \<Rightarrow>
      (let mid_price = (best_bid + best_ask) / 2;
           avg_bid_volume = mean (map snd bids);
           avg_ask_volume = mean (map snd asks);
           large_bid_threshold =
             max (avg_bid_volume * SPOOFING_VOLUME_MULTIPLIER) large_order_threshold_btc;
           large_ask_threshold =
             max (avg_ask_volume * SPOOFING_VOLUME_MULTIPLIER) large_order_threshold_btc
       in case scan_bids mid_price avg_bid_volume large_bid_threshold 0 bids [] of
            Inl e \<Rightarrow> Inl e
          | Inr suspicious_bids \<Rightarrow>
        case scan_asks mid_price avg_ask_volume large_ask_threshold 0 asks [] of
            Inl e \<Rightarrow> Inl e
          | Inr suspicious_asks \<Rightarrow>
        (let spoofing_score =
               spoofing_score_of (length suspicious_bids) (length suspicious_asks);
             risk = risk_level_of spoofing_score
         in Inr [(''success'', PBool True),
                 (''exchange'', PStr exchange),
                 (''symbol'', PStr (symbol @ ''/USDT'')),
                 (''spoofing_score'', PNum (real spoofing_score)),
                 (''risk_level'', PStr (fst risk)),
                 (''suspicious_orders'',
                    PDict [(''bids'', PList (take 10 suspicious_bids)),
                           (''asks'', PList (take 10 suspicious_asks)),
                           (''total_suspicious_bids'', PNum (real (length suspicious_bids))),
                           (''total_suspicious_asks'', PNum (real (length suspicious_asks)))]),
                 (''interpretation'', PStr (snd risk)),
                 (''recommendation'',
                    PStr (if fst risk \<noteq> ''LOW''
                          then ''Verify if these orders persist or get canceled quickly''
                          else ''Orderbook appears healthy''))])))"

definition detect_spoofing_patterns ::
  "string \<Rightarrow> string \<Rightarrow> real \<Rightarrow> level list \<Rightarrow> level list \<Rightarrow> payload" where
  "detect_spoofing_patterns symbol exchange large_order_threshold_btc bids asks =
     (case spoofing_body symbol exchange large_order_threshold_btc bids asks of
        Inl e \<Rightarrow> failure_payload e [(''exchange'', PStr exchange), (''symbol'', PStr symbol)]
      | Inr result \<Rightarrow> result)"

subsection \<open>calculate\_market\_impact\<close>







text \<open>
  Truth value of an optional float: None and 0.0 are false. \<open>round(x, n) if x else None\<close>
  is \<open>round_if\<close>.
\<close>

definition truthy :: "real option \<Rightarrow> bool" where
  "truthy x = (case x of None \<Rightarrow> False | Some v \<Rightarrow> v \<noteq> 0)"







text \<open>
  The words of the specification for the walk: the notional of a list of levels is the
  sum of price times size, its base volume the sum of the sizes.
\<close>

definition notional :: "level list \<Rightarrow> real" where
  "notional ls = (\<Sum>l\<leftarrow>ls. fst l * snd l)"

definition base_volume :: "level list \<Rightarrow> real" where
  "base_volume ls = (\<Sum>l\<leftarrow>ls. snd l)"





section \<open>On-balance volume (crypto\_advanced\_indicators.py, calculate\_obv)\<close>

text \<open>
  The loop \<open>for i in range(1, len(df))\<close> that builds the list \<open>obv\<close>, started with
  \<open>[0]\<close>: each round appends to the list a value computed from its last element
  \<open>obv[-1]\<close>. The second argument is the list of indices still to visit.
\<close>

fun obv_loop :: "candle list \<Rightarrow> nat list \<Rightarrow> real list \<Rightarrow> real list" where
  "obv_loop df [] obv = obv"
| "obv_loop df (i # is) obv =
     (if close (df ! i) > close (df ! (i - 1)) then
        obv_loop df is (obv @ [last obv + volume (df ! i)])
      else if close (df ! i) < close (df ! (i - 1)) then
        obv_loop df is (obv @ [last obv - volume (df ! i)])
      else obv_loop df is (obv @ [last obv]))"

definition obv_list :: "candle list \<Rightarrow> real list" where
  "obv_list df = obv_loop df [1..<length df] [0]"

text \<open>
  \<open>df['obv'] = obv\<close> needs as many values as the frame has rows; \<open>current_obv\<close> is the
  last of them. The trends, which the tool fits with numpy over the last 20 values, are
  not modelled.
\<close>

definition obv_column :: "candle list \<Rightarrow> py_exception + real list" where
  "obv_column df =
     (if length (obv_list df) = length df then Inr (obv_list df)
      else Inl (ValueError,
             ''Length of values ('' @ str_of_nat (length (obv_list df))
               @ '') does not match length of index ('' @ str_of_nat (length df) @ '')''))"

text \<open>The list after the rounds 1, ..., n of the loop.\<close>

definition obv_upto :: "candle list \<Rightarrow> nat \<Rightarrow> real list" where
  "obv_upto df n = obv_loop df [1..<Suc n] [0]"

text \<open>A candle with the given close and volume, and a three-row frame: up, then down.\<close>

definition cv_candle :: "real \<Rightarrow> real \<Rightarrow> candle" where
  "cv_candle c v = \<lparr> timestamp = 0, open = c, high = c, low = c, close = c, volume = v \<rparr>"

definition up_down_frame :: "candle list" where
  "up_down_frame = [cv_candle 10 5, cv_candle 11 7, cv_candle 10 3]"

section \<open>Money flow index (crypto\_advanced\_indicators.py, calculate\_mfi)\<close>

definition MFI_OVERBOUGHT :: real where "MFI_OVERBOUGHT = 80"
definition MFI_OVERSOLD :: real where "MFI_OVERSOLD = 20"

definition typical_price :: "candle \<Rightarrow> real" where
  "typical_price c = (high c + low c + close c) / 3"

definition money_flow :: "candle \<Rightarrow> real" where
  "money_flow c = typical_price c * volume c"

text \<open>
  The loop \<open>for i in range(1, len(df))\<close> appends one value to each of the two lists in
  every round; the lists are given here row by row.
\<close>

definition positive_flow :: "candle list \<Rightarrow> real list" where
  "positive_flow df =
     map (\<lambda>i. if typical_price (df ! i) > typical_price (df ! (i - 1)) then money_flow (df ! i)
              else 0) [1..<length df]"

definition negative_flow :: "candle list \<Rightarrow> real list" where
  "negative_flow df =
     map (\<lambda>i. if typical_price (df ! i) > typical_price (df ! (i - 1)) then 0
              else if typical_price (df ! i) < typical_price (df ! (i - 1)) then money_flow (df ! i)
              else 0) [1..<length df]"

text \<open>\<open>xs.iloc[a:b]\<close> for \<open>0 <= a <= b\<close>.\<close>

definition slice :: "'a list \<Rightarrow> nat \<Rightarrow> nat \<Rightarrow> 'a list" where
  "slice xs a b = take (b - a) (drop a xs)"

text \<open>
  The body of the loop \<open>for i in range(period, len(df))\<close>. Both divisions are checked:
  a zero divisor is a fault of the model, although numpy itself would return an infinity
  there, so that a theorem that no fault occurs says that no divisor is zero.
\<close>

definition mfi_val :: "real \<Rightarrow> real \<Rightarrow> py_exception + real" where
  "mfi_val pos_sum neg_sum =
     (if neg_sum = 0 then Inr 100
      else case py_div pos_sum neg_sum of
             Inl e \<Rightarrow> Inl e
           | Inr money_ratio \<Rightarrow>
               (case py_div 100 (1 + money_ratio) of
                  Inl e \<Rightarrow> Inl e
                | Inr q \<Rightarrow> Inr (100 - q)))"

fun mfi_loop ::
  "real list \<Rightarrow> real list \<Rightarrow> nat \<Rightarrow> nat list \<Rightarrow> real list \<Rightarrow> py_exception + real list" where
  "mfi_loop pf nf period [] mfi_values = Inr mfi_values"
| "mfi_loop pf nf period (i # is) mfi_values =
     (let pos_sum = sum_list (slice pf (i - period) i);
          neg_sum = sum_list (slice nf (i - period) i)
      in case mfi_val pos_sum neg_sum of
           Inl e \<Rightarrow> Inl e
         | Inr v \<Rightarrow> mfi_loop pf nf period is (mfi_values @ [v]))"

definition length_mismatch :: "nat \<Rightarrow> nat \<Rightarrow> py_exception" where
  "length_mismatch n m =
     (ValueError, ''Length of values ('' @ str_of_nat n
                    @ '') does not match length of index ('' @ str_of_nat m @ '')'')"

definition mfi_signal :: "real \<Rightarrow> string \<times> string" where
  "mfi_signal current_mfi =
     (if current_mfi > MFI_OVERBOUGHT then
        (''OVERBOUGHT'', ''Overbought - High money flow - Possible correction'')
      else if current_mfi < MFI_OVERSOLD then
        (''OVERSOLD'', ''Oversold - Low money flow - Possible bounce'')
      else (''NEUTRAL'', ''MFI in neutral range''))"

text \<open>
  The body of the \<open>try\<close> block after validation and fetch. The two flow columns need one
  value per row, which fails on an empty frame; the column \<open>mfi\<close> is \<open>period\<close> times None
  followed by the computed values, which fails when the frame has fewer than \<open>period\<close>
  rows; with exactly \<open>period\<close> rows the last entry is None and the comparison
  \<open>current_mfi > MFI_OVERBOUGHT\<close> raises TypeError.
\<close>

definition mfi_body :: "string \<Rightarrow> string \<Rightarrow> nat \<Rightarrow> candle list \<Rightarrow> py_exception + payload" where
  "mfi_body symbol timeframe period df =
     (if 1 + length (positive_flow df) \<noteq> length df then
        Inl (length_mismatch (1 + length (positive_flow df)) (length df))
      else
        (let pf = 0 # positive_flow df; nf = 0 # negative_flow df
         in case mfi_loop pf nf period [period..<length df] [] of
              Inl e \<Rightarrow> Inl e
            | Inr mfi_values \<Rightarrow>
                if period + length mfi_values \<noteq> length df then
                  Inl (length_mismatch (period + length mfi_values) (length df))
                else if mfi_values = [] then
                  Inl (TypeError,
                       [CHR 0x27] @ ''>'' @ [CHR 0x27]
                         @ '' not supported between instances of ''
                         @ [CHR 0x27] @ ''NoneType'' @ [CHR 0x27] @ '' and ''
                         @ [CHR 0x27] @ ''int'' @ [CHR 0x27])
                else
                  (let current_mfi = last mfi_values;
                       sig = mfi_signal current_mfi
                   in Inr [(''success'', PBool True),
                           (''symbol'', PStr symbol),
                           (''timeframe'', PStr timeframe),
                           (''period'', PNum (real period)),
                           (''current_mfi'', PNum (py_round current_mfi 2)),
                           (''signal'', PStr (fst sig)),
                           (''interpretation'', PStr (snd sig)),
                           (''current_price'', PNum (close (last df)))])))"

definition calculate_mfi :: "string \<Rightarrow> string \<Rightarrow> nat \<Rightarrow> candle list \<Rightarrow> payload" where
  "calculate_mfi symbol timeframe period df =
     (case mfi_body symbol timeframe period df of
        Inl e \<Rightarrow> failure_payload e [(''symbol'', PStr symbol)]
      | Inr result \<Rightarrow> result)"

text \<open>The value the specification gives for a window, from the two sums.\<close>

definition mfi_formula :: "real \<Rightarrow> real \<Rightarrow> real" where
  "mfi_formula pos_sum neg_sum =
     (if neg_sum = 0 then 100 else 100 - 100 / (1 + pos_sum / neg_sum))"

definition window_pos :: "candle list \<Rightarrow> nat \<Rightarrow> nat \<Rightarrow> real" where
  "window_pos df period i = sum_list (slice (0 # positive_flow df) (i - period) i)"

definition window_neg :: "candle list \<Rightarrow> nat \<Rightarrow> nat \<Rightarrow> real" where
  "window_neg df period i = sum_list (slice (0 # negative_flow df) (i - period) i)"

text \<open>Closes 10, 11, 10, 12 with volumes 5, 7, 3, 1.\<close>

definition four_row_frame :: "candle list" where
  "four_row_frame = [cv_candle 10 5, cv_candle 11 7, cv_candle 10 3, cv_candle 12 1]"

text \<open>The data model of the specification: the numeric fields of a candle are non-negative.\<close>

definition nonneg_candle :: "candle \<Rightarrow> bool" where
  "nonneg_candle c \<longleftrightarrow> 0 \<le> high c \<and> 0 \<le> low c \<and> 0 \<le> close c \<and> 0 \<le> volume c"

section \<open>Relative strength index (crypto\_technical\_analysis.py, calculate\_rsi)\<close>

text \<open>
  The RSI is computed with pandas series of floats, where a division by zero does not
  raise: it gives an infinity, or not-a-number for 0/0. These special values decide what
  the tool returns, so the floats of this computation are reals extended with them.
  Finite values are exact; the sign of a zero is not tracked, a positive number divided
  by zero is taken as plus infinity (with a negative zero it would be minus infinity,
  and \<open>100 - 100 / (1 + rs)\<close> is 100 for both).
\<close>

datatype xreal = Fin real | PInf | NInf | NaN

fun xneg :: "xreal \<Rightarrow> xreal" where
  "xneg (Fin a) = Fin (- a)"
| "xneg PInf = NInf"
| "xneg NInf = PInf"
| "xneg NaN = NaN"

fun xadd :: "xreal \<Rightarrow> xreal \<Rightarrow> xreal" where
  "xadd (Fin a) (Fin b) = Fin (a + b)"
| "xadd NaN _ = NaN"
| "xadd _ NaN = NaN"
| "xadd PInf NInf = NaN"
| "xadd NInf PInf = NaN"
| "xadd PInf _ = PInf"
| "xadd _ PInf = PInf"
| "xadd NInf _ = NInf"
| "xadd _ NInf = NInf"

definition xsub :: "xreal \<Rightarrow> xreal \<Rightarrow> xreal" where
  "xsub a b = xadd a (xneg b)"

fun xdiv :: "xreal \<Rightarrow> xreal \<Rightarrow> xreal" where
  "xdiv (Fin a) (Fin b) =
     (if b \<noteq> 0 then Fin (a / b) else if a > 0 then PInf else if a < 0 then NInf else NaN)"
| "xdiv (Fin a) PInf = Fin 0"
| "xdiv (Fin a) NInf = Fin 0"
| "xdiv PInf (Fin b) = (if b \<ge> 0 then PInf else NInf)"
| "xdiv NInf (Fin b) = (if b \<ge> 0 then NInf else PInf)"
| "xdiv _ _ = NaN"

text \<open>Comparisons: every comparison with not-a-number is false.\<close>

fun xless :: "xreal \<Rightarrow> xreal \<Rightarrow> bool" where
  "xless NaN _ = False"
| "xless _ NaN = False"
| "xless (Fin a) (Fin b) = (a < b)"
| "xless _ NInf = False"
| "xless PInf _ = False"
| "xless NInf _ = True"
| "xless _ PInf = True"

fun xround :: "xreal \<Rightarrow> nat \<Rightarrow> pyval" where
  "xround (Fin a) n = PNum (py_round a n)"
| "xround PInf n = PPosInf"
| "xround NInf n = PNegInf"
| "xround NaN n = PNaN"

text \<open>
  \<open>close_prices.diff()\<close>: the first entry is missing (None), the others are differences
  of consecutive closes. \<open>delta.where(delta > 0, 0)\<close> keeps the positive entries and puts 0
  elsewhere, also at the missing entry; the loss series is the negated
  \<open>delta.where(delta < 0, 0)\<close>.
\<close>

definition delta :: "candle list \<Rightarrow> real option list" where
  "delta df =
     map (\<lambda>i. if i = 0 then None else Some (close (df ! i) - close (df ! (i - 1))))
       [0..<length df]"

definition gain_raw :: "candle list \<Rightarrow> real list" where
  "gain_raw df = map (\<lambda>d. case d of Some x \<Rightarrow> if x > 0 then x else 0 | None \<Rightarrow> 0) (delta df)"

definition loss_raw :: "candle list \<Rightarrow> real list" where
  "loss_raw df =
     map (\<lambda>d. - (case d of Some x \<Rightarrow> if x < 0 then x else 0 | None \<Rightarrow> 0)) (delta df)"

text \<open>
  \<open>s.rolling(window=period).mean()\<close> for \<open>period >= 0\<close>: missing until \<open>period\<close> rows are
  available, then the mean of the last \<open>period\<close> rows; missing everywhere for an empty
  window.
\<close>

definition rolling_mean :: "nat \<Rightarrow> real list \<Rightarrow> real option list" where
  "rolling_mean period xs =
     map (\<lambda>i. if 1 \<le> period \<and> period \<le> i + 1
              then Some (sum_list (slice xs (i + 1 - period) (i + 1)) / real period)
              else None)
       [0..<length xs]"

definition of_missing :: "real option \<Rightarrow> xreal" where
  "of_missing x = (case x of None \<Rightarrow> NaN | Some v \<Rightarrow> Fin v)"

text \<open>\<open>rs = gain / loss\<close> and \<open>rsi = 100 - (100 / (1 + rs))\<close>, entry by entry.\<close>

definition rsi_series :: "nat \<Rightarrow> candle list \<Rightarrow> xreal list" where
  "rsi_series period df =
     map (\<lambda>(g, l). let rs = xdiv (of_missing g) (of_missing l)
                   in xsub (Fin 100) (xdiv (Fin 100) (xadd (Fin 1) rs)))
       (zip (rolling_mean period (gain_raw df)) (rolling_mean period (loss_raw df)))"

definition rsi_signal :: "xreal \<Rightarrow> string" where
  "rsi_signal current_rsi =
     (if xless (Fin 70) current_rsi then ''OVERBOUGHT''
      else if xless current_rsi (Fin 30) then ''OVERSOLD''
      else if xless (Fin 50) current_rsi then ''BULLISH''
      else ''BEARISH'')"

text \<open>\<open>rsi.tail(5).dropna()\<close> and the trend read from it.\<close>

definition recent_rsi :: "xreal list \<Rightarrow> xreal list" where
  "recent_rsi rsi = filter (\<lambda>x. x \<noteq> NaN) (drop (length rsi - 5) rsi)"

definition rsi_trend :: "xreal list \<Rightarrow> string" where
  "rsi_trend recent =
     (if length recent \<ge> 3 then
        (if xless (recent ! (length recent - 3)) (recent ! (length recent - 1)) then ''RISING''
         else if xless (recent ! (length recent - 1)) (recent ! (length recent - 3))
         then ''FALLING''
         else ''FLAT'')
      else ''FLAT'')"

text \<open>
  The tool. \<open>df\<close> is what safe\_fetch\_ohlcv\_data returned: None or a frame. \<open>symbol\<close> and
  \<open>period\<close> are the arguments as passed (this tool validates neither). The first return is
  the guard on the length; a negative window makes \<open>rolling\<close> raise ValueError, which the
  \<open>except\<close> block of this module turns into an error dictionary. The entry
  analysis\_timestamp, which reads the clock, is left out.
\<close>

definition calculate_rsi :: "string \<Rightarrow> int \<Rightarrow> candle list option \<Rightarrow> payload" where
  "calculate_rsi symbol period df_opt =
     (case df_opt of
        None \<Rightarrow>
          [(''error'', PStr (''Insufficient data for '' @ symbol @ ''. Need at least ''
                              @ str_of_int (period + 1) @ '' data points.''))]
      | Some df \<Rightarrow>
          if int (length df) < period + 1 then
            [(''error'', PStr (''Insufficient data for '' @ symbol @ ''. Need at least ''
                                @ str_of_int (period + 1) @ '' data points.''))]
          else if period < 0 then
            [(''error'', PStr (''RSI calculation failed: ''
                                @ ''window must be an integer 0 or greater'')),
             (''error_type'', PStr (type_name ValueError))]
          else
            (let rsi = rsi_series (nat period) df;
                 current_rsi = last rsi;
                 recent = recent_rsi rsi
             in [(''symbol'', PStr symbol),
                 (''current_rsi'', xround current_rsi 2),
                 (''rsi_signal'', PStr (rsi_signal current_rsi)),
                 (''period'', PNum (real_of_int period)),
                 (''overbought_threshold'', PNum 70),
                 (''oversold_threshold'', PNum 30),
                 (''rsi_trend'', PStr (rsi_trend recent)),
                 (''recent_rsi_values'', PList (map (\<lambda>x. xround x 2) recent))]))"

text \<open>
  The rolling averages of the last window, in the words of the specification: the means
  of the gains and of the losses over the last \<open>period\<close> rows.
\<close>

definition avg_gain :: "nat \<Rightarrow> candle list \<Rightarrow> real" where
  "avg_gain period df =
     sum_list (slice (gain_raw df) (length df - period) (length df)) / real period"

definition avg_loss :: "nat \<Rightarrow> candle list \<Rightarrow> real" where
  "avg_loss period df =
     sum_list (slice (loss_raw df) (length df - period) (length df)) / real period"

text \<open>Frames for the examples: fifteen equal closes, and closes that rise by one each row.\<close>

definition flat_frame :: "candle list" where
  "flat_frame = replicate 15 (cv_candle 1 1)"

definition rising_frame :: "candle list" where
  "rising_frame = map (\<lambda>i. cv_candle (real i + 1) 1) [0..<15]"

text \<open>One entry of the series, from a finite average gain and a finite average loss.\<close>

definition rsi_of :: "real \<Rightarrow> real \<Rightarrow> xreal" where
  "rsi_of g l = xsub (Fin 100) (xdiv (Fin 100) (xadd (Fin 1) (xdiv (Fin g) (Fin l))))"


section \<open>Theorems\<close>

subsection \<open>Evaluation helpers\<close>

lemma py_round_of_int: "py_round (of_int k) n = of_int k"
proof -
  have "real_of_int k * 10 ^ n = of_int (k * 10 ^ n)"
    by simp
  then have "round_half_even (of_int k * 10 ^ n) = k * 10 ^ n"
    unfolding round_half_even_def Let_def by (simp only: floor_of_int) simp
  then show ?thesis
    by (simp add: py_round_def)
qed

lemma py_round_numeral [simp]: "py_round (numeral k) n = numeral k"
  using py_round_of_int [of "numeral k" n] by simp

subsection \<open>C2: pivot points\<close>

lemma pivot_formulas_example:
  "pivot_formulas 110 90 100
     = \<lparr> pivot = 100, r1 = 110, r2 = 120, r3 = 130, s1 = 90, s2 = 80, s3 = 70 \<rparr>"
  by (simp add: pivot_formulas_def Let_def)

lemma calculate_pivot_points_two_rows:
  "calculate_pivot_points symbol tf [prev, cur]
     = pivot_success symbol tf (close cur) (pivot_formulas (high prev) (low prev) (close prev))"
  by (simp add: calculate_pivot_points_def iloc_neg_def)

lemma pivot_example_payload:
  "map_of (calculate_pivot_points symbol tf [bar 110 90 100, cur]) ''success'' = Some (PBool True)
   \<and> map_of (calculate_pivot_points symbol tf [bar 110 90 100, cur]) ''pivot'' = Some (PNum 100)
   \<and> map_of (calculate_pivot_points symbol tf [bar 110 90 100, cur]) ''resistances''
       = Some (PDict [(''R1'', PNum 110), (''R2'', PNum 120), (''R3'', PNum 130)])
   \<and> map_of (calculate_pivot_points symbol tf [bar 110 90 100, cur]) ''supports''
       = Some (PDict [(''S1'', PNum 90), (''S2'', PNum 80), (''S3'', PNum 70)])"
  unfolding calculate_pivot_points_two_rows
  by (simp add: bar_def pivot_formulas_example pivot_success_def Let_def del: min_by.simps)

text \<open>
  C2, as stated, fails at High = 110, Low = 90, Close = 95: the sum R1 + S1 is
  4 * Pivot - (High + Low), which differs from 2 * Pivot unless Close is the midpoint of
  High and Low.
\<close>

theorem pivot_r1_s1_counterexample:
  "(90::real) \<le> 110 \<and>
   r1 (pivot_formulas 110 90 95) + s1 (pivot_formulas 110 90 95)
     \<noteq> 2 * pivot (pivot_formulas 110 90 95)"
  by (simp add: pivot_formulas_def Let_def)

text \<open>
  C2, amended: for every High, Low, Close with High >= Low the levels computed by
  calculate\_pivot\_points satisfy R1 + S1 = 4 * Pivot - (High + Low), so that
  R1 + S1 = 2 * Pivot holds exactly when 2 * Close = High + Low, and
  R2 - S2 = 2 * (High - Low); the tool run on a frame whose previous bar is High = 110,
  Low = 90, Close = 100 reports Pivot = 100, R1 = 110, S1 = 90, R2 = 120, S2 = 80, R3 = 130,
  S3 = 70.
\<close>

theorem pivot_points_relations:
  assumes "l \<le> h"
  shows "r1 (pivot_formulas h l c) + s1 (pivot_formulas h l c)
           = 4 * pivot (pivot_formulas h l c) - (h + l)
       \<and> (r1 (pivot_formulas h l c) + s1 (pivot_formulas h l c) = 2 * pivot (pivot_formulas h l c)
           \<longleftrightarrow> 2 * c = h + l)
       \<and> r2 (pivot_formulas h l c) - s2 (pivot_formulas h l c) = 2 * (h - l)
       \<and> map_of (calculate_pivot_points symbol tf [bar 110 90 100, cur]) ''success''
           = Some (PBool True)
       \<and> map_of (calculate_pivot_points symbol tf [bar 110 90 100, cur]) ''pivot''
           = Some (PNum 100)
       \<and> map_of (calculate_pivot_points symbol tf [bar 110 90 100, cur]) ''resistances''
           = Some (PDict [(''R1'', PNum 110), (''R2'', PNum 120), (''R3'', PNum 130)])
       \<and> map_of (calculate_pivot_points symbol tf [bar 110 90 100, cur]) ''supports''
           = Some (PDict [(''S1'', PNum 90), (''S2'', PNum 80), (''S3'', PNum 70)])"
proof -
  have "r1 (pivot_formulas h l c) + s1 (pivot_formulas h l c)
           = 4 * pivot (pivot_formulas h l c) - (h + l)
       \<and> (r1 (pivot_formulas h l c) + s1 (pivot_formulas h l c) = 2 * pivot (pivot_formulas h l c)
           \<longleftrightarrow> 2 * c = h + l)
       \<and> r2 (pivot_formulas h l c) - s2 (pivot_formulas h l c) = 2 * (h - l)"
    by (auto simp add: pivot_formulas_def Let_def field_simps)
  with pivot_example_payload [of symbol tf cur] show ?thesis
    by blast
qed

theorem pivot_points_relations_witness:
  "(90::real) \<le> 110 \<and>
   r1 (pivot_formulas 110 90 100) + s1 (pivot_formulas 110 90 100)
     = 2 * pivot (pivot_formulas 110 90 100) \<and>
   r2 (pivot_formulas 110 90 100) - s2 (pivot_formulas 110 90 100) = 2 * (110 - 90)"
proof -
  have hl: "(90::real) \<le> 110"
    by simp
  have mid: "2 * (100::real) = 110 + 90"
    by simp
  from pivot_points_relations [OF hl, of 100] mid hl show ?thesis
    by blast
qed

subsection \<open>C4 and C8: funding rate\<close>

lemma market_bias_lookup:
  "map_of (get_funding_rate th symbol exchange rate) ''market_bias''
     = Some (PStr (fst (funding_analysis th (rate * 3 * 365 * 100))))"
  by (simp add: get_funding_rate_def Let_def)

text \<open>
  C4: with the thresholds of the module, the market\_bias reported by get\_funding\_rate is
  NEUTRAL exactly when the absolute annualized rate is below 5, BULLISH\_EXTREME for every
  annualized rate above 5, and BEARISH\_EXTREME in every other case (which includes an
  annualized rate of exactly 5); whatever the thresholds, changing
  FUNDING\_EXTREME\_THRESHOLD leaves the whole result unchanged.
\<close>

theorem funding_bias_classification:
  "(map_of (get_funding_rate module_thresholds symbol exchange rate) ''market_bias''
       = Some (PStr ''NEUTRAL'') \<longleftrightarrow> \<bar>rate * 3 * 365 * 100\<bar> < 5)
   \<and> (rate * 3 * 365 * 100 > 5 \<longrightarrow>
        map_of (get_funding_rate module_thresholds symbol exchange rate) ''market_bias''
          = Some (PStr ''BULLISH_EXTREME''))
   \<and> (\<not> \<bar>rate * 3 * 365 * 100\<bar> < 5 \<and> \<not> rate * 3 * 365 * 100 > 5 \<longrightarrow>
        map_of (get_funding_rate module_thresholds symbol exchange rate) ''market_bias''
          = Some (PStr ''BEARISH_EXTREME''))
   \<and> get_funding_rate (th\<lparr>FUNDING_EXTREME_THRESHOLD := x\<rparr>) symbol exchange rate
        = get_funding_rate th symbol exchange rate"
  unfolding market_bias_lookup
  by (simp add: funding_analysis_def module_thresholds_def get_funding_rate_def Let_def)

text \<open>
  Three runs: an annualized rate of 10.95 is above the neutral band and far below 50, and
  is BULLISH\_EXTREME; an annualized rate of exactly 5 falls into the last branch; an
  annualized rate of 1.095 is NEUTRAL.
\<close>

theorem funding_bias_classification_witness:
  "(1 / 10000 :: real) * 3 * 365 * 100 > 5
   \<and> map_of (get_funding_rate module_thresholds ''BTC'' ''binance'' (1 / 10000)) ''market_bias''
       = Some (PStr ''BULLISH_EXTREME'')
   \<and> \<not> \<bar>(1 / 21900 :: real) * 3 * 365 * 100\<bar> < 5 \<and> \<not> (1 / 21900 :: real) * 3 * 365 * 100 > 5
   \<and> map_of (get_funding_rate module_thresholds ''BTC'' ''binance'' (1 / 21900)) ''market_bias''
       = Some (PStr ''BEARISH_EXTREME'')
   \<and> \<bar>(1 / 100000 :: real) * 3 * 365 * 100\<bar> < 5
   \<and> map_of (get_funding_rate module_thresholds ''BTC'' ''binance'' (1 / 100000)) ''market_bias''
       = Some (PStr ''NEUTRAL'')"
proof -
  have a: "(1 / 10000 :: real) * 3 * 365 * 100 > 5"
    by simp
  have b: "\<not> \<bar>(1 / 21900 :: real) * 3 * 365 * 100\<bar> < 5 \<and> \<not> (1 / 21900 :: real) * 3 * 365 * 100 > 5"
    by simp
  have c: "\<bar>(1 / 100000 :: real) * 3 * 365 * 100\<bar> < 5"
    by simp
  from a b c
    funding_bias_classification [of "''BTC''" "''binance''" "1 / 10000"]
    funding_bias_classification [of "''BTC''" "''binance''" "1 / 21900"]
    funding_bias_classification [of "''BTC''" "''binance''" "1 / 100000"]
  show ?thesis
    by blast
qed


subsection \<open>C7: liquidation levels\<close>







subsection \<open>C10: spoofing score\<close>

lemma spoofing_score_of_range: "spoofing_score_of nb na \<in> {0, 25, 50, 75}"
  by (simp add: spoofing_score_of_def Let_def)

lemma dominance_exclusive: "\<not> (nb > na * 2 \<and> na > nb * (2::nat))"
  by arith

lemma risk_high_iff: "fst (risk_level_of (spoofing_score_of nb na)) = ''HIGH'' \<longleftrightarrow> spoofing_score_of nb na = 75"
  using spoofing_score_of_range [of nb na] by (auto simp add: risk_level_of_def)

lemma spoofing_body_shape:
  assumes "spoofing_body symbol exchange thr bids asks = Inr r"
  shows "\<exists>nb na. map_of r ''success'' = Some (PBool True)
     \<and> map_of r ''spoofing_score'' = Some (PNum (real (spoofing_score_of nb na)))
     \<and> map_of r ''risk_level'' = Some (PStr (fst (risk_level_of (spoofing_score_of nb na))))"
proof -
  from assms obtain sb sa :: "pyval list" where
    r: "r = [(''success'', PBool True), (''exchange'', PStr exchange),
             (''symbol'', PStr (symbol @ ''/USDT'')),
             (''spoofing_score'', PNum (real (spoofing_score_of (length sb) (length sa)))),
             (''risk_level'', PStr (fst (risk_level_of (spoofing_score_of (length sb) (length sa))))),
             (''suspicious_orders'',
                PDict [(''bids'', PList (take 10 sb)), (''asks'', PList (take 10 sa)),
                       (''total_suspicious_bids'', PNum (real (length sb))),
                       (''total_suspicious_asks'', PNum (real (length sa)))]),
             (''interpretation'', PStr (snd (risk_level_of (spoofing_score_of (length sb) (length sa))))),
             (''recommendation'',
                PStr (if fst (risk_level_of (spoofing_score_of (length sb) (length sa))) \<noteq> ''LOW''
                      then ''Verify if these orders persist or get canceled quickly''
                      else ''Orderbook appears healthy''))]"
    by (auto simp add: spoofing_body_def Let_def split: sum.splits)
  show ?thesis
    unfolding r by (intro exI [of _ "length sb"] exI [of _ "length sa"]) simp
qed

lemma failure_payload_success: "map_of (failure_payload e echo) ''success'' = Some (PBool False)"
  by (simp add: failure_payload_def)

text \<open>
  C10: the score computed from the two counts of suspicious orders lies in 0, 25, 50, 75; the
  two dominance conditions exclude each other; the risk level is HIGH exactly when the score
  is 75; and whenever detect\_spoofing\_patterns succeeds on an order book, the
  spoofing\_score it reports is one of 0, 25, 50, 75 and the reported risk\_level is HIGH
  exactly when that score is 75.
\<close>

theorem spoofing_score_values:
 "spoofing_score_of nb na \<in> {0, 25, 50, 75}
  \<and> \<not> (nb > na * 2 \<and> na > nb * 2)
  \<and> (fst (risk_level_of (spoofing_score_of nb na)) = ''HIGH'' \<longleftrightarrow> spoofing_score_of nb na = 75)
  \<and> (map_of (detect_spoofing_patterns symbol exchange thr bids asks) ''success'' = Some (PBool True) \<longrightarrow>
      (\<exists>s \<in> {0, 25, 50, 75}.
          map_of (detect_spoofing_patterns symbol exchange thr bids asks) ''spoofing_score''
            = Some (PNum (real s))
        \<and> (map_of (detect_spoofing_patterns symbol exchange thr bids asks) ''risk_level''
             = Some (PStr ''HIGH'') \<longleftrightarrow> s = (75::nat))))"
proof -
  have "\<exists>s \<in> {0, 25, 50, 75}.
          map_of (detect_spoofing_patterns symbol exchange thr bids asks) ''spoofing_score''
            = Some (PNum (real s))
        \<and> (map_of (detect_spoofing_patterns symbol exchange thr bids asks) ''risk_level''
             = Some (PStr ''HIGH'') \<longleftrightarrow> s = (75::nat))"
    if ok: "map_of (detect_spoofing_patterns symbol exchange thr bids asks) ''success'' = Some (PBool True)"
  proof (cases "spoofing_body symbol exchange thr bids asks")
    case (Inl e)
    with ok show ?thesis
      by (simp add: detect_spoofing_patterns_def failure_payload_success)
  next
    case (Inr r)
    from spoofing_body_shape [OF Inr] obtain nb' na' where
      sc: "map_of r ''spoofing_score'' = Some (PNum (real (spoofing_score_of nb' na')))" and
      rl: "map_of r ''risk_level'' = Some (PStr (fst (risk_level_of (spoofing_score_of nb' na'))))"
      by blast
    have d: "detect_spoofing_patterns symbol exchange thr bids asks = r"
      by (simp add: detect_spoofing_patterns_def Inr)
    show ?thesis
      unfolding d sc rl
      using spoofing_score_of_range [of nb' na'] risk_high_iff [of nb' na'] by auto
  qed
  with spoofing_score_of_range [of nb na] risk_high_iff [of nb na] dominance_exclusive [of nb na] show ?thesis
    by blast
qed

text \<open>
  A run that succeeds: one bid at 100 and one ask at 101, one unit each, give score 0 and a
  risk level other than HIGH.
\<close>

theorem spoofing_score_values_witness:
  "map_of (detect_spoofing_patterns ''BTC'' ''binance'' 5 [(100, 1)] [(101, 1)]) ''success''
     = Some (PBool True)
   \<and> (\<exists>s \<in> {0, 25, 50, 75}.
          map_of (detect_spoofing_patterns ''BTC'' ''binance'' 5 [(100, 1)] [(101, 1)])
            ''spoofing_score'' = Some (PNum (real s))
        \<and> (map_of (detect_spoofing_patterns ''BTC'' ''binance'' 5 [(100, 1)] [(101, 1)])
             ''risk_level'' = Some (PStr ''HIGH'') \<longleftrightarrow> s = (75::nat)))"
proof -
  have ok: "map_of (detect_spoofing_patterns ''BTC'' ''binance'' 5 [(100, 1)] [(101, 1)])
              ''success'' = Some (PBool True)"
    by (simp add: detect_spoofing_patterns_def spoofing_body_def best_price_def mean_def
          py_div_def Let_def SPOOFING_VOLUME_MULTIPLIER_def SPOOFING_DISTANCE_PCT_def)
  from spoofing_score_values [of 0 0 "''BTC''" "''binance''" 5 "[(100, 1)]" "[(101, 1)]"] ok
  show ?thesis
    by blast
qed

subsection \<open>C9: market impact\<close>

lemma notional_simps [simp]:
  "notional [] = 0" "notional (l # ls) = fst l * snd l + notional ls"
  by (simp_all add: notional_def)

lemma base_volume_simps [simp]:
  "base_volume [] = 0" "base_volume (l # ls) = snd l + base_volume ls"
  by (simp_all add: base_volume_def)

















subsection \<open>C6: on-balance volume\<close>

lemma obv_loop_append:
  "obv_loop df (is @ [i]) obv =
     (let r = obv_loop df is obv
      in if close (df ! i) > close (df ! (i - 1)) then r @ [last r + volume (df ! i)]
         else if close (df ! i) < close (df ! (i - 1)) then r @ [last r - volume (df ! i)]
         else r @ [last r])"
  by (induction "is" arbitrary: obv) (simp_all add: Let_def)

lemma obv_loop_length: "length (obv_loop df is obv) = length obv + length is"
  by (induction df "is" obv rule: obv_loop.induct) simp_all

lemma obv_loop_prefix: "j < length obv \<Longrightarrow> obv_loop df is obv ! j = obv ! j"
  by (induction df "is" obv rule: obv_loop.induct) (simp_all add: nth_append)

lemma obv_upto_0: "obv_upto df 0 = [0]"
  by (simp add: obv_upto_def)

lemma obv_upto_Suc:
  "obv_upto df (Suc n) =
     (if close (df ! Suc n) > close (df ! n) then
        obv_upto df n @ [last (obv_upto df n) + volume (df ! Suc n)]
      else if close (df ! Suc n) < close (df ! n) then
        obv_upto df n @ [last (obv_upto df n) - volume (df ! Suc n)]
      else obv_upto df n @ [last (obv_upto df n)])"
proof -
  have "[1..<Suc (Suc n)] = [1..<Suc n] @ [Suc n]"
    by (rule upt_Suc_append) simp
  then show ?thesis
    unfolding obv_upto_def
    by (simp only: obv_loop_append Let_def diff_Suc_1)
qed

lemma obv_upto_length: "length (obv_upto df n) = Suc n"
  by (simp add: obv_upto_def obv_loop_length)

lemma obv_upto_last: "last (obv_upto df n) = obv_upto df n ! n"
proof -
  have "obv_upto df n \<noteq> []"
    using obv_upto_length [of df n] by auto
  then show ?thesis
    by (simp add: last_conv_nth obv_upto_length)
qed

lemma obv_upto_nth_Suc:
  "i \<le> n \<Longrightarrow> obv_upto df (Suc n) ! i = obv_upto df n ! i"
  by (simp add: obv_upto_Suc nth_append obv_upto_length)

lemma obv_upto_nth_new:
  "obv_upto df (Suc n) ! Suc n - obv_upto df n ! n =
     (if close (df ! Suc n) > close (df ! n) then volume (df ! Suc n)
      else if close (df ! Suc n) < close (df ! n) then - volume (df ! Suc n)
      else 0)"
  by (simp add: obv_upto_Suc nth_append obv_upto_length obv_upto_last)

lemma obv_upto_step:
  assumes "i < n"
  shows "obv_upto df n ! Suc i - obv_upto df n ! i =
           (if close (df ! Suc i) > close (df ! i) then volume (df ! Suc i)
            else if close (df ! Suc i) < close (df ! i) then - volume (df ! Suc i)
            else 0)"
  using assms
proof (induction n)
  case 0
  then show ?case by simp
next
  case (Suc n)
  show ?case
  proof (cases "i = n")
    case True
    have "obv_upto df (Suc n) ! n = obv_upto df n ! n"
      by (rule obv_upto_nth_Suc) simp
    with obv_upto_nth_new [of df n] show ?thesis
      unfolding True by simp
  next
    case False
    with Suc.prems have i: "i < n" by simp
    then have "obv_upto df (Suc n) ! Suc i = obv_upto df n ! Suc i"
      and "obv_upto df (Suc n) ! i = obv_upto df n ! i"
      by (simp_all add: obv_upto_nth_Suc)
    with Suc.IH [OF i] show ?thesis
      by simp
  qed
qed

text \<open>
  C6: for every non-empty frame the list built by calculate\_obv has one value per row and
  is accepted as the column \<open>obv\<close>; its first value is 0, and for every row i >= 1 the
  difference OBV[i] - OBV[i-1] is +volume[i] when close[i] > close[i-1], -volume[i] when
  close[i] < close[i-1], and 0 when the two closes are equal.
\<close>

theorem obv_differences:
  assumes "df \<noteq> []"
  shows "obv_column df = Inr (obv_list df)
       \<and> length (obv_list df) = length df
       \<and> obv_list df ! 0 = 0
       \<and> (\<forall>i. 1 \<le> i \<and> i < length df \<longrightarrow>
             obv_list df ! i - obv_list df ! (i - 1) =
               (if close (df ! i) > close (df ! (i - 1)) then volume (df ! i)
                else if close (df ! i) < close (df ! (i - 1)) then - volume (df ! i)
                else 0))"
proof -
  from assms obtain n where n: "length df = Suc n"
    by (cases df) auto
  have ol: "obv_list df = obv_upto df n"
    by (simp add: obv_list_def obv_upto_def n)
  have z: "obv_list df ! 0 = 0"
    by (simp add: obv_list_def obv_loop_prefix)
  have len: "length (obv_list df) = length df"
    by (simp add: ol obv_upto_length n)
  have step: "obv_list df ! i - obv_list df ! (i - 1) =
               (if close (df ! i) > close (df ! (i - 1)) then volume (df ! i)
                else if close (df ! i) < close (df ! (i - 1)) then - volume (df ! i)
                else 0)" if "1 \<le> i \<and> i < length df" for i
  proof -
    from that obtain j where j: "i = Suc j" "j < n"
      using n by (cases i) auto
    from obv_upto_step [OF j(2), of df] show ?thesis
      by (simp add: ol j(1))
  qed
  from len have "obv_column df = Inr (obv_list df)"
    by (simp add: obv_column_def)
  with z len step show ?thesis
    by blast
qed

text \<open>On closes 10, 11, 10 with volumes 5, 7, 3 the differences are +7 and -3.\<close>

theorem obv_differences_witness:
  "up_down_frame \<noteq> []
   \<and> obv_list up_down_frame ! 0 = 0
   \<and> obv_list up_down_frame ! 1 - obv_list up_down_frame ! 0 = 7
   \<and> obv_list up_down_frame ! 2 - obv_list up_down_frame ! 1 = - 3"
proof -
  have ne: "up_down_frame \<noteq> []"
    by (simp add: up_down_frame_def)
  from obv_differences [OF ne] have
    z: "obv_list up_down_frame ! 0 = 0" and
    st: "\<And>i. 1 \<le> i \<and> i < length up_down_frame \<Longrightarrow>
            obv_list up_down_frame ! i - obv_list up_down_frame ! (i - 1) =
              (if close (up_down_frame ! i) > close (up_down_frame ! (i - 1))
               then volume (up_down_frame ! i)
               else if close (up_down_frame ! i) < close (up_down_frame ! (i - 1))
               then - volume (up_down_frame ! i)
               else 0)"
    by blast+
  have "obv_list up_down_frame ! 1 - obv_list up_down_frame ! (1 - 1) = 7"
    by (subst st) (simp_all add: up_down_frame_def cv_candle_def)
  moreover have "obv_list up_down_frame ! 2 - obv_list up_down_frame ! (2 - 1) = - 3"
    by (subst st) (simp_all add: up_down_frame_def cv_candle_def)
  ultimately show ?thesis
    using ne z by simp
qed

subsection \<open>C5: money flow index\<close>

lemma mfi_val_zero_neg: "mfi_val p 0 = Inr 100"
  by (simp add: mfi_val_def)

lemma mfi_val_nonneg:
  assumes "0 \<le> p" and "0 \<le> n"
  shows "mfi_val p n = Inr (mfi_formula p n)"
    and "n \<noteq> 0 \<Longrightarrow> 1 + p / n \<noteq> 0"
proof -
  have "0 < 1 + p / n" if "n \<noteq> 0"
  proof -
    from that assms have "0 \<le> p / n" by simp
    then show ?thesis by linarith
  qed
  then show "n \<noteq> 0 \<Longrightarrow> 1 + p / n \<noteq> 0"
    by auto
  then show "mfi_val p n = Inr (mfi_formula p n)"
    by (simp add: mfi_val_def mfi_formula_def py_div_def)
qed

lemma slice_sum_nonneg:
  assumes "\<forall>x \<in> set xs. (0::real) \<le> x"
  shows "0 \<le> sum_list (slice xs a b)"
proof -
  have "set (slice xs a b) \<subseteq> set xs"
    unfolding slice_def by (meson in_set_takeD in_set_dropD subsetI)
  with assms show ?thesis
    by (intro sum_list_nonneg) auto
qed

lemma money_flow_nonneg: "nonneg_candle c \<Longrightarrow> 0 \<le> money_flow c"
  by (simp add: nonneg_candle_def money_flow_def typical_price_def)

lemma flows_nonneg:
  assumes "\<forall>c \<in> set df. nonneg_candle c"
  shows "\<forall>x \<in> set (0 # positive_flow df). 0 \<le> x"
    and "\<forall>x \<in> set (0 # negative_flow df). 0 \<le> x"
  using assms by (auto simp add: positive_flow_def negative_flow_def money_flow_nonneg)

lemma mfi_loop_total:
  assumes "\<forall>x \<in> set pf. 0 \<le> x" and "\<forall>x \<in> set nf. 0 \<le> x"
  shows "mfi_loop pf nf period is acc
           = Inr (acc @ map (\<lambda>i. mfi_formula (sum_list (slice pf (i - period) i))
                                            (sum_list (slice nf (i - period) i))) is)"
proof (induction "is" arbitrary: acc)
  case Nil
  then show ?case by simp
next
  case (Cons i "is")
  have "mfi_val (sum_list (slice pf (i - period) i)) (sum_list (slice nf (i - period) i))
          = Inr (mfi_formula (sum_list (slice pf (i - period) i))
                             (sum_list (slice nf (i - period) i)))"
    by (rule mfi_val_nonneg(1)) (rule slice_sum_nonneg, rule assms)+
  then show ?case
    by (simp add: Cons.IH Let_def)
qed

lemma window_sums_nonneg:
  assumes "\<forall>c \<in> set df. nonneg_candle c"
  shows "0 \<le> window_pos df period i" and "0 \<le> window_neg df period i"
  unfolding window_pos_def window_neg_def
  by (rule slice_sum_nonneg, rule flows_nonneg [OF assms])+

lemma mfi_values_of_frame:
  assumes "\<forall>c \<in> set df. nonneg_candle c"
  shows "mfi_loop (0 # positive_flow df) (0 # negative_flow df) period [period..<length df] []
           = Inr (map (\<lambda>i. mfi_formula (window_pos df period i) (window_neg df period i))
                    [period..<length df])"
  using mfi_loop_total [OF flows_nonneg [OF assms], of period "[period..<length df]" "[]"]
  by (simp add: window_pos_def window_neg_def)

lemma mfi_body_no_zero_division:
  assumes "\<forall>c \<in> set df. nonneg_candle c"
  shows "mfi_body symbol tf period df \<noteq> Inl (ZeroDivisionError, msg)"
  by (simp add: mfi_body_def mfi_values_of_frame [OF assms] Let_def length_mismatch_def)

lemma mfi_body_success:
  assumes "\<forall>c \<in> set df. nonneg_candle c" and "period < length df"
  shows "\<exists>r. mfi_body symbol tf period df = Inr r
          \<and> map_of r ''success'' = Some (PBool True)
          \<and> map_of r ''current_mfi''
              = Some (PNum (py_round (mfi_formula (window_pos df period (length df - 1))
                                                 (window_neg df period (length df - 1))) 2))"
proof -
  from assms(2) have up: "[period..<length df] = [period..<length df - 1] @ [length df - 1]"
    by (metis Suc_diff_1 gr_implies_not0 le_simps(2) not_gr_zero upt_Suc_append)
  have len: "1 + length (positive_flow df) = length df"
    using assms(2) by (simp add: positive_flow_def)
  show ?thesis
    unfolding mfi_body_def mfi_values_of_frame [OF assms(1)] Let_def
    using assms(2) len by (simp add: up)
qed

lemma calculate_mfi_error_type:
  assumes "\<forall>c \<in> set df. nonneg_candle c"
  shows "map_of (calculate_mfi symbol tf period df) ''error_type''
           \<noteq> Some (PStr ''ZeroDivisionError'')"
proof (cases "mfi_body symbol tf period df")
  case (Inl e)
  obtain t msg where e: "e = (t, msg)" by (cases e)
  with Inl mfi_body_no_zero_division [OF assms, of symbol tf period msg]
  have "t \<noteq> ZeroDivisionError" by auto
  then show ?thesis
    by (cases t) (simp_all add: calculate_mfi_def Inl e failure_payload_def)
next
  case (Inr r)
  then show ?thesis
    by (auto simp add: calculate_mfi_def mfi_body_def Let_def split: if_splits sum.splits)
qed

text \<open>
  C5: on every frame of candles with non-negative high, low, close and volume, and for
  every window i: a negative money-flow sum of exactly 0 gives the value 100 without any
  division (this holds for every pair of sums); otherwise the value is
  100 - 100 / (1 + sumPositive / sumNegative), and neither divisor is zero. The loop
  over the windows therefore returns all its values, calculate\_mfi never reports a
  ZeroDivisionError, and on a frame with more than \<open>period\<close> rows it succeeds with the value
  of the last window, rounded to two decimals.
\<close>

theorem mfi_total:
  assumes "\<forall>c \<in> set df. nonneg_candle c"
  shows "mfi_val p 0 = Inr 100
       \<and> (\<forall>i. 0 \<le> window_pos df period i \<and> 0 \<le> window_neg df period i
              \<and> mfi_val (window_pos df period i) (window_neg df period i)
                  = Inr (if window_neg df period i = 0 then 100
                         else 100 - 100 / (1 + window_pos df period i / window_neg df period i))
              \<and> (window_neg df period i \<noteq> 0 \<longrightarrow>
                    1 + window_pos df period i / window_neg df period i \<noteq> 0))
       \<and> mfi_loop (0 # positive_flow df) (0 # negative_flow df) period [period..<length df] []
           = Inr (map (\<lambda>i. if window_neg df period i = 0 then 100
                            else 100 - 100 / (1 + window_pos df period i / window_neg df period i))
                    [period..<length df])
       \<and> map_of (calculate_mfi symbol tf period df) ''error_type''
           \<noteq> Some (PStr ''ZeroDivisionError'')
       \<and> (period < length df \<longrightarrow>
            map_of (calculate_mfi symbol tf period df) ''success'' = Some (PBool True)
          \<and> map_of (calculate_mfi symbol tf period df) ''current_mfi''
              = Some (PNum (py_round
                   (if window_neg df period (length df - 1) = 0 then 100
                    else 100 - 100 / (1 + window_pos df period (length df - 1)
                                          / window_neg df period (length df - 1))) 2)))"
proof -
  have w: "0 \<le> window_pos df period i \<and> 0 \<le> window_neg df period i
              \<and> mfi_val (window_pos df period i) (window_neg df period i)
                  = Inr (if window_neg df period i = 0 then 100
                         else 100 - 100 / (1 + window_pos df period i / window_neg df period i))
              \<and> (window_neg df period i \<noteq> 0 \<longrightarrow>
                    1 + window_pos df period i / window_neg df period i \<noteq> 0)" for i
    using window_sums_nonneg [OF assms, of period i]
      mfi_val_nonneg [of "window_pos df period i" "window_neg df period i"]
    by (simp add: mfi_formula_def)
  have l: "mfi_loop (0 # positive_flow df) (0 # negative_flow df) period [period..<length df] []
           = Inr (map (\<lambda>i. if window_neg df period i = 0 then 100
                            else 100 - 100 / (1 + window_pos df period i / window_neg df period i))
                    [period..<length df])"
    using mfi_values_of_frame [OF assms, of period] by (simp add: mfi_formula_def)
  have s: "map_of (calculate_mfi symbol tf period df) ''success'' = Some (PBool True)
          \<and> map_of (calculate_mfi symbol tf period df) ''current_mfi''
              = Some (PNum (py_round
                   (if window_neg df period (length df - 1) = 0 then 100
                    else 100 - 100 / (1 + window_pos df period (length df - 1)
                                          / window_neg df period (length df - 1))) 2))"
    if "period < length df"
    using mfi_body_success [OF assms that, of symbol tf]
    by (auto simp add: calculate_mfi_def mfi_formula_def)
  from w l s calculate_mfi_error_type [OF assms, of symbol tf period] mfi_val_zero_neg [of p]
  show ?thesis
    by blast
qed

text \<open>
  On closes 10, 11, 10, 12 with volumes 5, 7, 3, 1 and period 2 the last window has
  positive flow 77 and negative flow 30.
\<close>

theorem mfi_total_witness:
  "list_all nonneg_candle four_row_frame
   \<and> 2 < length four_row_frame
   \<and> window_pos four_row_frame 2 3 = 77 \<and> window_neg four_row_frame 2 3 = 30
   \<and> mfi_val (window_pos four_row_frame 2 3) (window_neg four_row_frame 2 3)
       = Inr (100 - 100 / (1 + 77 / 30))
   \<and> map_of (calculate_mfi ''BTC'' ''1h'' 2 four_row_frame) ''success'' = Some (PBool True)"
proof -
  have nn: "\<forall>c \<in> set four_row_frame. nonneg_candle c"
    by (simp add: four_row_frame_def cv_candle_def nonneg_candle_def)
  have len: "2 < length four_row_frame"
    by (simp add: four_row_frame_def)
  have idx: "[1..<4] = [1, 2, 3]"
    by (simp add: upt_rec)
  have wp: "window_pos four_row_frame 2 3 = 77" and wn: "window_neg four_row_frame 2 3 = 30"
    by (simp_all add: window_pos_def window_neg_def positive_flow_def negative_flow_def
          four_row_frame_def cv_candle_def slice_def idx typical_price_def money_flow_def)
  from mfi_total [OF nn, of _ 2 "''BTC''" "''1h''"] len have
    "mfi_val (window_pos four_row_frame 2 3) (window_neg four_row_frame 2 3)
       = Inr (if window_neg four_row_frame 2 3 = 0 then 100
              else 100 - 100 / (1 + window_pos four_row_frame 2 3 / window_neg four_row_frame 2 3))"
    and "map_of (calculate_mfi ''BTC'' ''1h'' 2 four_row_frame) ''success'' = Some (PBool True)"
    by blast+
  with nn len wp wn show ?thesis
    by (simp add: list_all_iff)
qed

subsection \<open>C3: relative strength index\<close>

lemma delta_length [simp]: "length (delta df) = length df"
  by (simp add: delta_def)

lemma gain_raw_length [simp]: "length (gain_raw df) = length df"
  by (simp add: gain_raw_def)

lemma loss_raw_length [simp]: "length (loss_raw df) = length df"
  by (simp add: loss_raw_def)

lemma rolling_mean_length [simp]: "length (rolling_mean period xs) = length xs"
  by (simp add: rolling_mean_def)

lemma rolling_mean_last:
  assumes "1 \<le> period" and "period \<le> length xs"
  shows "rolling_mean period xs ! (length xs - 1)
           = Some (sum_list (slice xs (length xs - period) (length xs)) / real period)"
proof -
  from assms obtain m where m: "length xs = Suc m"
    by (cases "length xs") auto
  have "rolling_mean period xs ! m
          = Some (sum_list (slice xs (Suc m - period) (Suc m)) / real period)"
    unfolding rolling_mean_def using assms m by (simp del: upt_Suc)
  then show ?thesis
    by (simp add: m)
qed

lemma gain_raw_nonneg: "\<forall>x \<in> set (gain_raw df). 0 \<le> x"
  by (auto simp add: gain_raw_def split: option.splits)

lemma loss_raw_nonneg: "\<forall>x \<in> set (loss_raw df). 0 \<le> x"
  by (auto simp add: loss_raw_def split: option.splits)

lemma avg_nonneg: "0 \<le> avg_gain period df" "0 \<le> avg_loss period df"
  unfolding avg_gain_def avg_loss_def
  by (simp_all add: slice_sum_nonneg gain_raw_nonneg loss_raw_nonneg)

lemma rsi_of_cases:
  assumes "0 \<le> g" and "0 \<le> l"
  shows "rsi_of g l = (if l = 0 then (if g = 0 then NaN else Fin 100)
                       else Fin (100 - 100 / (1 + g / l)))"
proof -
  have "1 + g / l \<noteq> 0" if "l \<noteq> 0"
  proof -
    from assms have "0 \<le> g / l" by simp
    then show ?thesis by linarith
  qed
  with assms show ?thesis
    by (auto simp add: rsi_of_def xsub_def)
qed

lemma rsi_last:
  assumes "1 \<le> period" and "period + 1 \<le> length df"
  shows "last (rsi_series period df) = rsi_of (avg_gain period df) (avg_loss period df)"
proof -
  let ?g = "rolling_mean period (gain_raw df)" and ?l = "rolling_mean period (loss_raw df)"
  from assms obtain m where m: "length df = Suc m"
    by (cases "length df") auto
  from assms have p: "period \<le> length df" by simp
  have len: "length (rsi_series period df) = Suc m"
    by (simp add: rsi_series_def m)
  then have ne: "rsi_series period df \<noteq> []"
    by auto
  have g: "?g ! m = Some (avg_gain period df)"
    using rolling_mean_last [OF assms(1), of "gain_raw df"] p by (simp add: avg_gain_def m)
  have l: "?l ! m = Some (avg_loss period df)"
    using rolling_mean_last [OF assms(1), of "loss_raw df"] p by (simp add: avg_loss_def m)
  have "last (rsi_series period df) = rsi_series period df ! m"
    using ne len by (simp add: last_conv_nth)
  also have "\<dots> = rsi_of (avg_gain period df) (avg_loss period df)"
    unfolding rsi_series_def
    by (simp add: m g l rsi_of_def of_missing_def Let_def)
  finally show ?thesis .
qed

lemma rsi_range:
  assumes "(0::real) \<le> g" and "0 < l"
  shows "0 \<le> 100 - 100 / (1 + g / l)" and "100 - 100 / (1 + g / l) < 100"
proof -
  from assms have "0 \<le> g / l" by (rule divide_nonneg_pos)
  then have one: "1 \<le> 1 + g / l" by simp
  then have pos: "0 < 1 + g / l" by linarith
  from one have "100 / (1 + g / l) \<le> 100 / 1"
    by (intro divide_left_mono) simp_all
  then show "0 \<le> 100 - 100 / (1 + g / l)" by simp
  from pos have "0 < 100 / (1 + g / l)" by simp
  then show "100 - 100 / (1 + g / l) < 100" by simp
qed


lemma calculate_rsi_current:
  assumes "1 \<le> period" and "period + 1 \<le> int (length df)"
  shows "map_of (calculate_rsi symbol period (Some df)) ''current_rsi''
           = Some (xround (rsi_of (avg_gain (nat period) df) (avg_loss (nat period) df)) 2)"
    and "map_of (calculate_rsi symbol period (Some df)) ''rsi_signal''
           = Some (PStr (rsi_signal (rsi_of (avg_gain (nat period) df) (avg_loss (nat period) df))))"
    and "map_of (calculate_rsi symbol period (Some df)) ''success'' = None"
proof -
  from assms have a: "1 \<le> nat period" and b: "nat period + 1 \<le> length df"
    by linarith+
  from assms have c: "\<not> int (length df) < period + 1" "\<not> period < 0"
    by linarith+
  show "map_of (calculate_rsi symbol period (Some df)) ''current_rsi''
           = Some (xround (rsi_of (avg_gain (nat period) df) (avg_loss (nat period) df)) 2)"
    and "map_of (calculate_rsi symbol period (Some df)) ''rsi_signal''
           = Some (PStr (rsi_signal (rsi_of (avg_gain (nat period) df) (avg_loss (nat period) df))))"
    and "map_of (calculate_rsi symbol period (Some df)) ''success'' = None"
    using c by (simp_all add: calculate_rsi_def Let_def rsi_last [OF a b])
qed

lemma sum_list_all_zero: "\<forall>x \<in> set xs. x = (0::real) \<Longrightarrow> sum_list xs = 0"
  by (induction xs) auto

lemma constant_close_raw:
  assumes "\<forall>c \<in> set df. close c = k"
  shows "\<forall>x \<in> set (gain_raw df). x = 0" and "\<forall>x \<in> set (loss_raw df). x = 0"
  using assms by (auto simp add: gain_raw_def loss_raw_def delta_def)

lemma constant_close_avg:
  assumes "\<forall>c \<in> set df. close c = k"
  shows "avg_gain period df = 0" and "avg_loss period df = 0"
proof -
  have "\<forall>x \<in> set (slice (gain_raw df) a b). x = 0" for a b
    using constant_close_raw(1) [OF assms]
    unfolding slice_def by (meson in_set_takeD in_set_dropD)
  then show "avg_gain period df = 0"
    by (simp add: avg_gain_def sum_list_all_zero)
  have "\<forall>x \<in> set (slice (loss_raw df) a b). x = 0" for a b
    using constant_close_raw(2) [OF assms]
    unfolding slice_def by (meson in_set_takeD in_set_dropD)
  then show "avg_loss period df = 0"
    by (simp add: avg_loss_def sum_list_all_zero)
qed

lemma flat_frame_facts:
  "\<forall>c \<in> set flat_frame. close c = 1" "length flat_frame = 15"
  by (simp_all add: flat_frame_def cv_candle_def)

text \<open>
  C3 asks for an RSI in [0, 100] that is 100 whenever the average loss of the window is 0,
  also when every close delta of the window is 0. On fifteen equal closes with period 14
  both averages are 0, and calculate\_rsi returns not-a-number as current\_rsi (the quotient
  0/0 of the two averages), with the signal BEARISH.
\<close>

theorem rsi_flat_window_nan:
  "length flat_frame = 15
   \<and> avg_gain 14 flat_frame = 0 \<and> avg_loss 14 flat_frame = 0
   \<and> map_of (calculate_rsi ''BTC'' 14 (Some flat_frame)) ''current_rsi'' = Some PNaN
   \<and> map_of (calculate_rsi ''BTC'' 14 (Some flat_frame)) ''rsi_signal''
       = Some (PStr ''BEARISH'')"
proof -
  have g: "avg_gain 14 flat_frame = 0" and l: "avg_loss 14 flat_frame = 0"
    by (rule constant_close_avg [OF flat_frame_facts(1)])+
  have p: "(1::int) \<le> 14" "(14::int) + 1 \<le> int (length flat_frame)"
    by (simp_all add: flat_frame_facts(2))
  have n: "nat 14 = 14" by simp
  have r: "rsi_of 0 0 = NaN"
    by (simp add: rsi_of_def xsub_def)
  from calculate_rsi_current(1,2) [OF p, of "''BTC''"] show ?thesis
    by (simp add: n g l r flat_frame_facts(2) rsi_signal_def)
qed

text \<open>
  What calculate\_rsi returns on a frame of at least period + 1 rows, for period >= 1, from
  the average gain and the average loss G and L of the last window (both are non-negative):
  100 - 100 / (1 + G / L), a value in [0, 100), rounded to two decimals, when L is not 0;
  100 when L = 0 and G > 0; not-a-number when L = 0 and G = 0.
\<close>

lemma rsi_current_value:
  assumes "1 \<le> period" and "period + 1 \<le> int (length df)"
  shows "0 \<le> avg_gain (nat period) df \<and> 0 \<le> avg_loss (nat period) df
       \<and> (avg_loss (nat period) df \<noteq> 0 \<longrightarrow>
            (\<exists>v. map_of (calculate_rsi symbol period (Some df)) ''current_rsi''
                   = Some (PNum (py_round v 2))
                \<and> v = 100 - 100 / (1 + avg_gain (nat period) df / avg_loss (nat period) df)
                \<and> 0 \<le> v \<and> v < 100))
       \<and> (avg_loss (nat period) df = 0 \<and> avg_gain (nat period) df \<noteq> 0 \<longrightarrow>
            map_of (calculate_rsi symbol period (Some df)) ''current_rsi''
              = Some (PNum 100))
       \<and> (avg_loss (nat period) df = 0 \<and> avg_gain (nat period) df = 0 \<longrightarrow>
            map_of (calculate_rsi symbol period (Some df)) ''current_rsi''
              = Some PNaN)"
proof -
  let ?g = "avg_gain (nat period) df" and ?l = "avg_loss (nat period) df"
  have nn: "0 \<le> ?g" "0 \<le> ?l"
    by (rule avg_nonneg)+
  note cur = calculate_rsi_current(1) [OF assms, of symbol]
  have a: "\<exists>v. map_of (calculate_rsi symbol period (Some df)) ''current_rsi''
                   = Some (PNum (py_round v 2))
                \<and> v = 100 - 100 / (1 + ?g / ?l) \<and> 0 \<le> v \<and> v < 100" if "?l \<noteq> 0"
  proof -
    from that nn have "0 < ?l" by simp
    from rsi_range [OF nn(1) this] that show ?thesis
      by (simp add: cur rsi_of_cases [OF nn])
  qed
  have b: "map_of (calculate_rsi symbol period (Some df)) ''current_rsi'' = Some (PNum 100)"
    if "?l = 0 \<and> ?g \<noteq> 0"
  proof -
    from that rsi_of_cases [OF nn] have "rsi_of ?g ?l = Fin 100"
      by simp
    then show ?thesis
      by (simp add: cur)
  qed
  have c: "map_of (calculate_rsi symbol period (Some df)) ''current_rsi'' = Some PNaN"
    if "?l = 0 \<and> ?g = 0"
  proof -
    from that rsi_of_cases [OF nn] have "rsi_of ?g ?l = NaN"
      by simp
    then show ?thesis
      by (simp add: cur)
  qed
  from nn a b c show ?thesis
    by blast
qed

subsection \<open>C1: failure payloads on short series\<close>







end
